theory Spec2Isabelle
  imports Main "HOL-Library.Sublist"
begin

section \<open>Values of the Python program\<close>

text \<open>
  An exception is observed by the program through its class (the \<open>except\<close> clauses of
  \<open>generate_plan\<close>) and through \<open>str(e)\<close>. Only instances of \<open>Exception\<close> are modelled:
  every \<open>except\<close> clause of the source catches \<open>Exception\<close> or a subclass of it.
\<close>

datatype py_exception = PyException (exc_class: string) (exc_str: string)

text \<open>A pandas DataFrame: named columns and rows of cells.\<close>

datatype dataframe = DataFrame (columns: "string list") (rows: "string list list")

text \<open>The values stored in the dictionaries of the execution log.\<close>

datatype pyval = PyInt int | PyStr string

text \<open>A dictionary of the execution log, as its items in insertion order.\<close>

type_synonym log_entry = "(string \<times> pyval) list"

section \<open>The outside world\<close>

text \<open>
  \<open>CodeExecutor.__init__\<close> fixes three paths below the temporary directory; the record
  \<open>files\<close> holds the text stored at each of them (\<open>None\<close>: no such file).
\<close>

record code_executor =
  input_csv_path :: string
  output_csv_path :: string
  script_path :: string

record files =
  input_csv :: "string option"
  output_csv :: "string option"
  script :: "string option"

text \<open>What \<open>subprocess.run(..., capture_output=True, text=True)\<close> returns.\<close>

record completed_process =
  returncode :: int
  stdout :: string
  stderr :: string

text \<open>
  The calls that leave the orchestrating process, in the order they are made. The history
  is an observation of the run, not a variable of the program: it lets a statement count
  the calls, and it lets an external answer depend on everything that happened before.
\<close>

datatype event =
    GenerateCode string
  | ExecuteCode string dataframe
  | SubprocessRun string
  | FixCode string string
  | Cleanup

record world =
  files :: files
  history :: "event list"

text \<open>
  The collaborators the source calls but does not define, each a function of the history
  so far: the language-model calls behind \<open>coder_agent.generate_code\<close> and
  \<open>debugger_agent.fix_code\<close> (\<open>Inl\<close>: the call raised), pandas' \<open>to_csv\<close> and
  \<open>read_csv\<close>, writing the script file, \<open>subprocess.run\<close> (which sees the files and
  may change them), \<open>traceback.format_exc\<close> and \<open>Path.unlink\<close>.
\<close>

record env =
  generate_code :: "event list \<Rightarrow> string \<Rightarrow> py_exception + string"
  fix_code :: "event list \<Rightarrow> string \<Rightarrow> string \<Rightarrow> py_exception + string"
  to_csv :: "event list \<Rightarrow> dataframe \<Rightarrow> py_exception + string"
  write_script :: "event list \<Rightarrow> string \<Rightarrow> py_exception option"
  subprocess_run :: "event list \<Rightarrow> files \<Rightarrow> py_exception + completed_process \<times> files"
  read_csv :: "event list \<Rightarrow> string \<Rightarrow> py_exception + dataframe"
  format_exc :: "event list \<Rightarrow> py_exception \<Rightarrow> string"
  unlink :: "event list \<Rightarrow> string \<Rightarrow> py_exception option"

section \<open>code\_executor.py\<close>

text \<open>The f-string \<open>full_script\<close> of \<open>execute_code\<close> (lines 54 to 75).\<close>

definition full_script :: "code_executor \<Rightarrow> string \<Rightarrow> string" where
  \<open>full_script ex code_string =
     ''\<newline># Import necessary libraries\<newline>import pandas as pd\<newline>\<newline># Load the input data\<newline>df = pd.read_csv(r"''
     @ input_csv_path ex
     @ ''")\<newline>\<newline># Define the transformation function\<newline>''
     @ code_string
     @ ''\<newline>\<newline># Apply the transformation\<newline>try:\<newline>    df = transform_data(df)\<newline>    # Save the result\<newline>    df.to_csv(r"''
     @ output_csv_path ex
     @ ''", index=False)\<newline>    print("Transformation completed successfully")\<newline>except Exception as e:\<newline>    import traceback\<newline>    print(f"Error during transformation: {str(e)}")\<newline>    print(traceback.format_exc())\<newline>    exit(1)\<newline>''\<close>

text \<open>
  The dictionary \<open>execute_code\<close> returns: \<open>{'status': 'success', 'dataframe', 'stdout'}\<close>
  or \<open>{'status': 'error', 'traceback', 'returncode'}\<close>, the latter without
  \<open>'returncode'\<close> when it is built by the exception handler.
\<close>

datatype exec_result = Success dataframe string | Error string "int option"

text \<open>Python's \<open>a or b\<close> on strings: \<open>a\<close> unless it is empty.\<close>

definition py_or :: "string \<Rightarrow> string \<Rightarrow> string" where
  "py_or a b = (if a \<noteq> [] then a else b)"

text \<open>The \<open>else\<close> branch of lines 98 to 104.\<close>

definition error_information :: "completed_process \<Rightarrow> exec_result" where
  "error_information result =
     Error (py_or (stderr result) (stdout result)) (Some (returncode result))"

text \<open>
  The body of the \<open>try\<close> block of \<open>execute_code\<close> (lines 50 to 104). \<open>Inl e\<close>: the
  statement reached raised \<open>e\<close>. A failed write is taken to leave the file as it was.
  The event \<open>SubprocessRun\<close> is recorded when \<open>subprocess.run\<close> returned, that is when
  a subordinate process ran.
\<close>

definition execute_try ::
  "env \<Rightarrow> code_executor \<Rightarrow> string \<Rightarrow> dataframe \<Rightarrow> world \<Rightarrow> (py_exception + exec_result) \<times> world" where
  "execute_try env ex code_string input_df w =
     (let h = history w @ [ExecuteCode code_string input_df];
          w0 = w\<lparr>history := h\<rparr>
      in case to_csv env h input_df of
           Inl e \<Rightarrow> (Inl e, w0)
         | Inr csv \<Rightarrow>
             (let w1 = w0\<lparr>files := (files w0)\<lparr>input_csv := Some csv\<rparr>\<rparr>;
                  script_text = full_script ex code_string
              in case write_script env h script_text of
                   Some e \<Rightarrow> (Inl e, w1)
                 | None \<Rightarrow>
                     (let w2 = w1\<lparr>files := (files w1)\<lparr>script := Some script_text\<rparr>\<rparr>
                      in case subprocess_run env h (files w2) of
                           Inl e \<Rightarrow> (Inl e, w2)
                         | Inr (result, fs) \<Rightarrow>
                             (let h3 = h @ [SubprocessRun script_text];
                                  w3 = w2\<lparr>files := fs, history := h3\<rparr>
                              in if returncode result = 0
                                 then (case output_csv fs of
                                         Some artifact \<Rightarrow>
                                           (case read_csv env h3 artifact of
                                              Inl e \<Rightarrow> (Inl e, w3)
                                            | Inr output_df \<Rightarrow>
                                                (Inr (Success output_df (stdout result)), w3))
                                       | None \<Rightarrow> (Inr (error_information result), w3))
                                 else (Inr (error_information result), w3)))))"

text \<open>The text built by the handler of lines 106 to 112.\<close>

definition process_error :: "env \<Rightarrow> event list \<Rightarrow> py_exception \<Rightarrow> string" where
  "process_error env h e =
     ''Error in code execution process: '' @ exc_str e @ ''\<newline>'' @ format_exc env h e"

text \<open>\<open>CodeExecutor.execute_code\<close>: the \<open>try\<close> block under its \<open>except Exception\<close>.\<close>

definition execute_code ::
  "env \<Rightarrow> code_executor \<Rightarrow> string \<Rightarrow> dataframe \<Rightarrow> world \<Rightarrow> exec_result \<times> world" where
  "execute_code env ex code_string input_df w =
     (case execute_try env ex code_string input_df w of
        (Inr r, w') \<Rightarrow> (r, w')
      | (Inl e, w') \<Rightarrow> (Error (process_error env (history w') e) None, w'))"

text \<open>
  \<open>CodeExecutor.cleanup\<close>: the three files are removed in turn; the first \<open>unlink\<close>
  that raises ends the \<open>try\<close> block, and the handler only prints.
\<close>

definition cleanup :: "env \<Rightarrow> code_executor \<Rightarrow> world \<Rightarrow> world" where
  "cleanup env ex w =
     (let h = history w @ [Cleanup];
          w0 = w\<lparr>history := h\<rparr>;
          f = files w
      in case (if input_csv f \<noteq> None then unlink env h (input_csv_path ex) else None) of
           Some e \<Rightarrow> w0
         | None \<Rightarrow>
             (let f1 = f\<lparr>input_csv := None\<rparr>
              in case (if output_csv f1 \<noteq> None then unlink env h (output_csv_path ex) else None) of
                   Some e \<Rightarrow> w0\<lparr>files := f1\<rparr>
                 | None \<Rightarrow>
                     (let f2 = f1\<lparr>output_csv := None\<rparr>
                      in case (if script f2 \<noteq> None then unlink env h (script_path ex) else None) of
                           Some e \<Rightarrow> w0\<lparr>files := f2\<rparr>
                         | None \<Rightarrow> w0\<lparr>files := f2\<lparr>script := None\<rparr>\<rparr>)))"

section \<open>state\_manager.py\<close>

text \<open>
  The state of an \<open>Orchestrator\<close>: the DataFrame held by its \<open>StateManager\<close>
  (\<open>None\<close> until a CSV file is loaded), its \<open>execution_log\<close>, and the world its
  \<open>CodeExecutor\<close> works in.
\<close>

record orchestrator =
  df :: "dataframe option"
  execution_log :: "log_entry list"
  outside :: world

definition get_dataframe :: "orchestrator \<Rightarrow> dataframe option" where
  "get_dataframe s = df s"

definition update_dataframe :: "dataframe \<Rightarrow> orchestrator \<Rightarrow> orchestrator" where
  "update_dataframe new_df s = s\<lparr>df := Some new_df\<rparr>"

section \<open>orchestrator.py\<close>

text \<open>
  A task of a plan: the dictionary \<open>{'id': ..., 'task': ...}\<close>, with an integer id
  and a string description as the docstring of \<open>run_plan\<close> has them. What the
  orchestrator prints on its console is not modelled.
\<close>

record task_item =
  item_id :: int
  item_task :: string

text \<open>The four dictionaries \<open>run_plan\<close> appends to the log (lines 77, 94, 115, 162).\<close>

definition generation_failed_entry :: "task_item \<Rightarrow> py_exception \<Rightarrow> log_entry" where
  "generation_failed_entry t e =
     [(''task_id'', PyInt (item_id t)),
      (''task'', PyStr (item_task t)),
      (''status'', PyStr ''failed''),
      (''error'', PyStr (''Error generating code: '' @ exc_str e)),
      (''stage'', PyStr ''code_generation'')]"

definition no_dataframe_entry :: "task_item \<Rightarrow> log_entry" where
  "no_dataframe_entry t =
     [(''task_id'', PyInt (item_id t)),
      (''task'', PyStr (item_task t)),
      (''status'', PyStr ''failed''),
      (''error'', PyStr ''No DataFrame available''),
      (''stage'', PyStr ''execution'')]"

definition success_entry :: "task_item \<Rightarrow> string \<Rightarrow> nat \<Rightarrow> log_entry" where
  "success_entry t code_string attempt =
     [(''task_id'', PyInt (item_id t)),
      (''task'', PyStr (item_task t)),
      (''code'', PyStr code_string),
      (''status'', PyStr ''success''),
      (''attempt'', PyInt (int attempt + 1))]"

definition exhausted_entry :: "task_item \<Rightarrow> string \<Rightarrow> string \<Rightarrow> log_entry" where
  "exhausted_entry t code_string error_traceback =
     [(''task_id'', PyInt (item_id t)),
      (''task'', PyStr (item_task t)),
      (''code'', PyStr code_string),
      (''status'', PyStr ''failed''),
      (''error'', PyStr error_traceback),
      (''attempts'', PyInt 3)]"

definition append_log :: "log_entry \<Rightarrow> orchestrator \<Rightarrow> orchestrator" where
  "append_log e s = s\<lparr>execution_log := execution_log s @ [e]\<rparr>"

text \<open>
  Lines 142 to 157: the call of \<open>debugger_agent.fix_code\<close> under its
  \<open>except Exception\<close>. The result is the code of the next attempt.
\<close>

definition debug_code :: "env \<Rightarrow> string \<Rightarrow> string \<Rightarrow> world \<Rightarrow> string \<times> world" where
  "debug_code env code_string error_traceback w =
     (let h = history w @ [FixCode code_string error_traceback]
      in (case fix_code env h code_string error_traceback of
            Inr fixed_code \<Rightarrow> fixed_code
          | Inl e \<Rightarrow> code_string,
          w\<lparr>history := h\<rparr>))"

text \<open>
  The loop \<open>for attempt in range(3)\<close> of lines 87 to 169, by recursion on the attempts
  still to make; \<open>break\<close> is a branch without a recursive call.
\<close>

fun attempt_loop ::
  "env \<Rightarrow> code_executor \<Rightarrow> task_item \<Rightarrow> nat list \<Rightarrow> string \<Rightarrow> orchestrator \<Rightarrow> orchestrator" where
  "attempt_loop env ex t [] code_string s = s"
| "attempt_loop env ex t (attempt # rest) code_string s =
     (case get_dataframe s of
        None \<Rightarrow> append_log (no_dataframe_entry t) s
      | Some current_df \<Rightarrow>
          (case execute_code env ex code_string current_df (outside s) of
             (Success new_df out, w) \<Rightarrow>
               append_log (success_entry t code_string attempt)
                 (update_dataframe new_df (s\<lparr>outside := w\<rparr>))
           | (Error error_traceback rc, w) \<Rightarrow>
               (let (code', w') =
                      (if attempt < 2 then debug_code env code_string error_traceback w
                       else (code_string, w));
                    s' = s\<lparr>outside := w'\<rparr>;
                    s'' = (if attempt = 2
                           then append_log (exhausted_entry t code' error_traceback) s'
                           else s')
                in attempt_loop env ex t rest code' s'')))"

text \<open>\<open>range(3)\<close>.\<close>

definition range3 :: "nat list" where
  "range3 = [0, 1, 2]"

text \<open>One iteration of \<open>for task_item in plan\<close> (lines 53 to 169).\<close>

definition run_task :: "env \<Rightarrow> code_executor \<Rightarrow> task_item \<Rightarrow> orchestrator \<Rightarrow> orchestrator" where
  "run_task env ex t s =
     (let h = history (outside s) @ [GenerateCode (item_task t)];
          s0 = s\<lparr>outside := (outside s)\<lparr>history := h\<rparr>\<rparr>
      in case generate_code env h (item_task t) of
           Inl e \<Rightarrow> append_log (generation_failed_entry t e) s0
         | Inr code_string \<Rightarrow> attempt_loop env ex t range3 code_string s0)"

fun run_tasks :: "env \<Rightarrow> code_executor \<Rightarrow> task_item list \<Rightarrow> orchestrator \<Rightarrow> orchestrator" where
  "run_tasks env ex [] s = s"
| "run_tasks env ex (t # plan) s = run_tasks env ex plan (run_task env ex t s)"


text \<open>Reading a key of a log dictionary.\<close>

definition dict_get :: "log_entry \<Rightarrow> string \<Rightarrow> pyval option" where
  "dict_get d k = map_of d k"

section \<open>ds\_agent.py\<close>

text \<open>The values \<open>json.loads\<close> returns. A float is kept as its literal.\<close>

datatype json =
    JNull
  | JBool bool
  | JInt int
  | JFloat string
  | JStr string
  | JArr "json list"
  | JObj "(string \<times> json) list"

definition type_name :: "json \<Rightarrow> string" where
  "type_name v =
     (case v of JNull \<Rightarrow> ''NoneType'' | JBool b \<Rightarrow> ''bool'' | JInt i \<Rightarrow> ''int''
      | JFloat x \<Rightarrow> ''float'' | JStr s \<Rightarrow> ''str'' | JArr xs \<Rightarrow> ''list'' | JObj kvs \<Rightarrow> ''dict'')"

text \<open>
  \<open>for step in plan\<close>: a list yields its elements, a dict its keys (each once, in the
  order of first insertion), a str its characters; anything else raises \<open>TypeError\<close>.
\<close>

definition py_iter :: "json \<Rightarrow> py_exception + json list" where
  "py_iter v =
     (case v of
        JArr xs \<Rightarrow> Inr xs
      | JObj kvs \<Rightarrow> Inr (map JStr (rev (remdups (rev (map fst kvs)))))
      | JStr s \<Rightarrow> Inr (map (\<lambda>c. JStr [c]) s)
      | _ \<Rightarrow> Inl (PyException ''TypeError'' ([CHR 0x27] @ type_name v @ [CHR 0x27] @ '' object is not iterable'')))"

text \<open>
  \<open>key in step\<close> for a str \<open>key\<close>: a key of a dict, an element of a list, a substring
  of a str; anything else raises \<open>TypeError\<close>.
\<close>

definition py_contains :: "string \<Rightarrow> json \<Rightarrow> py_exception + bool" where
  "py_contains k v =
     (case v of
        JObj kvs \<Rightarrow> Inr (k \<in> set (map fst kvs))
      | JArr xs \<Rightarrow> Inr (JStr k \<in> set xs)
      | JStr s \<Rightarrow> Inr (sublist k s)
      | _ \<Rightarrow> Inl (PyException ''TypeError'' (''argument of type '' @ [CHR 0x27] @ type_name v @ [CHR 0x27] @ '' is not iterable'')))"

text \<open>
  What \<open>generate_plan\<close> calls but does not define: the environment variable, the
  outcome of \<open>json.dumps(data_profile, indent=2)\<close>, the chat completion (from the user
  message to the stripped content of the first choice), \<open>json.loads\<close> and \<open>str\<close>.
\<close>

record plan_env =
  api_key :: "string option"
  json_dumps :: "py_exception + string"
  chat_completion :: "string \<Rightarrow> py_exception + string"
  json_loads :: "string \<Rightarrow> py_exception + json"
  py_str :: "json \<Rightarrow> string"

definition invalid_step :: "plan_env \<Rightarrow> json \<Rightarrow> py_exception" where
  "invalid_step penv step =
     PyException ''ValueError'' (''Invalid step format in plan: '' @ py_str penv step)"

text \<open>The validation loop of lines 69 to 71; \<open>Some e\<close>: it raised \<open>e\<close>.\<close>

fun validate_steps :: "plan_env \<Rightarrow> json list \<Rightarrow> py_exception option" where
  "validate_steps penv [] = None"
| "validate_steps penv (step # steps) =
     (case py_contains ''id'' step of
        Inl e \<Rightarrow> Some e
      | Inr has_id \<Rightarrow>
          if \<not> has_id then Some (invalid_step penv step)
          else (case py_contains ''task'' step of
                  Inl e \<Rightarrow> Some e
                | Inr has_task \<Rightarrow>
                    if \<not> has_task then Some (invalid_step penv step)
                    else validate_steps penv steps))"

text \<open>The \<open>try\<close> block of lines 50 to 73.\<close>

definition generate_plan_try :: "plan_env \<Rightarrow> string \<Rightarrow> py_exception + json" where
  "generate_plan_try penv user_message =
     (case chat_completion penv user_message of
        Inl e \<Rightarrow> Inl e
      | Inr plan_json_string \<Rightarrow>
          (case json_loads penv plan_json_string of
             Inl e \<Rightarrow> Inl e
           | Inr plan \<Rightarrow>
               (case py_iter plan of
                  Inl e \<Rightarrow> Inl e
                | Inr steps \<Rightarrow>
                    (case validate_steps penv steps of
                       Some e \<Rightarrow> Inl e
                     | None \<Rightarrow> Inr plan))))"

text \<open>The single-task plan both handlers return, with its description.\<close>

definition fallback_plan :: "string \<Rightarrow> json" where
  "fallback_plan description = JArr [JObj [(''id'', JInt 1), (''task'', JStr description)]]"

text \<open>The handlers of lines 75 to 87: \<open>except json.JSONDecodeError\<close>, then \<open>except Exception\<close>.\<close>

definition handler_plan :: "py_exception \<Rightarrow> json" where
  "handler_plan e =
     (if exc_class e = ''JSONDecodeError''
      then fallback_plan ''Error generating plan. Please check the data profile and try again.''
      else fallback_plan (''Error generating plan: '' @ exc_str e))"

text \<open>\<open>generate_plan\<close>. \<open>Inl e\<close>: the call raised \<open>e\<close> (outside the \<open>try\<close> block).\<close>

definition generate_plan :: "plan_env \<Rightarrow> string \<Rightarrow> py_exception + json" where
  "generate_plan penv user_context =
     (if api_key penv = None \<or> api_key penv = Some []
      then Inl (PyException ''ValueError''
                  ''OpenAI API key not found. Please set the OPENAI_API_KEY environment variable.'')
      else case json_dumps penv of
             Inl e \<Rightarrow> Inl e
           | Inr profile \<Rightarrow>
               (case generate_plan_try penv
                       (''Data Profile:\<newline>'' @ profile @ ''\<newline>\<newline>User Context:\<newline>'' @ user_context) of
                  Inr plan \<Rightarrow> Inr plan
                | Inl e \<Rightarrow> Inr (handler_plan e)))"

text \<open>\<open>step[key]\<close> for a step that is a dict (of several items with one key the last counts).\<close>

definition step_field :: "string \<Rightarrow> json \<Rightarrow> json option" where
  "step_field k step = (case step of JObj kvs \<Rightarrow> map_of (rev kvs) k | _ \<Rightarrow> None)"

section \<open>Reading the ledger\<close>

text \<open>
  The specification's \<open>final_status\<close> is the key \<open>'status'\<close>; its \<open>attempts_used\<close> is
  stored under \<open>'attempt'\<close> by the success branch and under \<open>'attempts'\<close> by the branch
  of the exhausted third attempt.
\<close>

definition status_failed :: "log_entry \<Rightarrow> bool" where
  "status_failed e = (dict_get e ''status'' = Some (PyStr ''failed''))"


text \<open>The entries \<open>run_plan\<close> can append for a task.\<close>

definition task_entry :: "task_item \<Rightarrow> log_entry \<Rightarrow> bool" where
  "task_entry t e \<longleftrightarrow>
     (\<exists>x. e = generation_failed_entry t x) \<or> e = no_dataframe_entry t \<or>
     (\<exists>c a. a < 3 \<and> e = success_entry t c a) \<or> (\<exists>c tb. e = exhausted_entry t c tb)"



section \<open>A small world to run the program in\<close>

text \<open>
  One executor, one DataFrame with the columns \<open>a\<close> and \<open>b\<close>, and an environment in
  which four pieces of generated code behave as they would under Python and pandas:
  \<open>code_drop_b\<close> succeeds, \<open>code_drop_zip\<close> raises in \<open>transform_data\<close> (the driver
  script prints the error and exits with 1), \<open>code_empty_frame\<close> succeeds and writes a
  file that \<open>read_csv\<close> refuses (no columns), and \<open>code_exit0\<close> ends the process with
  exit code 0 before the transformation is applied, so that nothing is written. Any other
  script, the empty code included, fails for want of \<open>transform_data\<close>.
\<close>

definition ex0 :: code_executor where
  "ex0 = \<lparr>input_csv_path = ''temp_execution/input.csv'',
          output_csv_path = ''temp_execution/output.csv'',
          script_path = ''temp_execution/_temp_script.py''\<rparr>"

definition df_ab :: dataframe where
  "df_ab = DataFrame [''a'', ''b''] [[''1'', ''2'']]"

definition df_a :: dataframe where
  "df_a = DataFrame [''a''] [[''1'']]"

definition code_drop_b :: string where
  \<open>code_drop_b = ''def transform_data(df):\<newline>    return df.drop(columns=["b"])''\<close>

definition code_drop_zip :: string where
  \<open>code_drop_zip = ''def transform_data(df):\<newline>    return df.drop(columns=["zip"])''\<close>

definition code_empty_frame :: string where
  \<open>code_empty_frame = ''def transform_data(df):\<newline>    return pd.DataFrame()''\<close>

definition code_exit0 :: string where
  \<open>code_exit0 = ''import sys\<newline>sys.exit(0)''\<close>

definition ran_ok :: completed_process where
  "ran_ok = \<lparr>returncode = 0, stdout = ''Transformation completed successfully\<newline>'', stderr = []\<rparr>"

definition ran_exit0 :: completed_process where
  "ran_exit0 = \<lparr>returncode = 0, stdout = [], stderr = []\<rparr>"

definition ran_failed :: completed_process where
  "ran_failed = \<lparr>returncode = 1, stdout = ''Error during transformation\<newline>'', stderr = []\<rparr>"

definition empty_data_error :: py_exception where
  "empty_data_error = PyException ''EmptyDataError'' ''No columns to parse from file''"

definition connection_error :: py_exception where
  "connection_error = PyException ''Exception'' ''Error fixing code: Connection error.''"

definition no_api_key :: py_exception where
  "no_api_key = PyException ''ValueError'' ''OpenAI API key not found in environment variables''"

definition demo_env :: env where
  "demo_env =
     \<lparr>generate_code = (\<lambda>h task.
          if task = ''drop b'' then Inr code_drop_b
          else if task = ''drop zip'' then Inr code_drop_zip
          else if task = ''empty frame'' then Inr code_empty_frame
          else if task = ''exit'' then Inr code_exit0
          else if task = ''nothing'' then Inr []
          else Inl no_api_key),
      fix_code = (\<lambda>h code tb.
          if code = code_drop_zip then Inr code_drop_b else Inl connection_error),
      to_csv = (\<lambda>h d. if d = df_ab then Inr ''a,b\<newline>1,2\<newline>'' else Inr ''a\<newline>1\<newline>''),
      write_script = (\<lambda>h s. None),
      subprocess_run = (\<lambda>h f.
          if script f = Some (full_script ex0 code_drop_b)
            then Inr (ran_ok, f\<lparr>output_csv := Some ''a\<newline>1\<newline>''\<rparr>)
          else if script f = Some (full_script ex0 code_empty_frame)
            then Inr (ran_ok, f\<lparr>output_csv := Some ''\<newline>''\<rparr>)
          else if script f = Some (full_script ex0 code_exit0)
            then Inr (ran_exit0, f)
          else Inr (ran_failed, f)),
      read_csv = (\<lambda>h s.
          if s = ''a,b\<newline>1,2\<newline>'' then Inr df_ab
          else if s = ''a\<newline>1\<newline>'' then Inr df_a
          else Inl empty_data_error),
      format_exc = (\<lambda>h e. ''Traceback (most recent call last):\<newline>'' @ exc_class e @ '': '' @ exc_str e @ ''\<newline>''),
      unlink = (\<lambda>h p. None)\<rparr>"

definition no_files :: files where
  "no_files = \<lparr>input_csv = None, output_csv = None, script = None\<rparr>"

text \<open>A fresh orchestrator after \<open>load_csv\<close>, and one whose \<open>load_csv\<close> failed.\<close>

definition fresh :: orchestrator where
  "fresh = \<lparr>df = Some df_ab, execution_log = [], outside = \<lparr>files = no_files, history = []\<rparr>\<rparr>"


definition task1 :: "string \<Rightarrow> task_item" where
  "task1 d = \<lparr>item_id = 1, item_task = d\<rparr>"

text \<open>A plan producer whose model answers with two tasks of the same id and no description.\<close>

definition plan_text :: string where
  \<open>plan_text = ''[{"id": 1, "task": ""}, {"id": 1, "task": ""}]''\<close>

definition demo_plan_env :: plan_env where
  "demo_plan_env =
     \<lparr>api_key = Some ''sk-demo'',
      json_dumps = Inr ''{}'',
      chat_completion = (\<lambda>m. if m = ''Data Profile:\<newline>{}\<newline>\<newline>User Context:\<newline>bad'' then Inr ''[{}]''
                             else if m = ''Data Profile:\<newline>{}\<newline>\<newline>User Context:\<newline>worse'' then Inr ''Sure!''
                             else Inr plan_text),
      json_loads = (\<lambda>s.
          if s = plan_text
          then Inr (JArr [JObj [(''id'', JInt 1), (''task'', JStr [])],
                          JObj [(''id'', JInt 1), (''task'', JStr [])]])
          else if s = ''[{}]'' then Inr (JArr [JObj []])
          else Inl (PyException ''JSONDecodeError'' ''Expecting value: line 1 column 1 (char 0)'')),
      py_str = (\<lambda>v. ''{}'')\<rparr>"

text \<open>Worlds in which an earlier invocation has left an output file.\<close>

definition stale_world :: world where
  "stale_world = \<lparr>files = no_files\<lparr>output_csv := Some ''a\<newline>1\<newline>''\<rparr>, history = []\<rparr>"

definition stale_empty_world :: world where
  "stale_empty_world = \<lparr>files = no_files\<lparr>output_csv := Some ''\<newline>''\<rparr>, history = []\<rparr>"

definition disk_full :: py_exception where
  "disk_full = PyException ''OSError'' ''[Errno 28] No space left on device''"

definition no_python :: py_exception where
  "no_python = PyException ''FileNotFoundError'' (''[Errno 2] No such file or directory: '' @ [CHR 0x27] @ ''python'' @ [CHR 0x27])"

text \<open>
  Variants of the environment: one in which no subordinate process touches the files, and
  three in which a step of the orchestrating process raises (the disk is full when the
  input or the script is written, or there is no \<open>python\<close> to run).
\<close>

definition quiet_env :: env where
  "quiet_env = demo_env\<lparr>subprocess_run := (\<lambda>h f. Inr (ran_exit0, f))\<rparr>"

definition env_to_csv_fails :: env where
  "env_to_csv_fails = demo_env\<lparr>to_csv := (\<lambda>h d. Inl disk_full)\<rparr>"

definition env_write_fails :: env where
  "env_write_fails = demo_env\<lparr>write_script := (\<lambda>h s. Some disk_full)\<rparr>"

definition env_spawn_fails :: env where
  "env_spawn_fails = demo_env\<lparr>subprocess_run := (\<lambda>h f. Inl no_python)\<rparr>"

text \<open>An orchestrator that has a DataFrame and an output file left by an earlier invocation.\<close>

definition stale_state :: orchestrator where
  "stale_state = \<lparr>df = Some df_ab, execution_log = [], outside = stale_world\<rparr>"

text \<open>The plan the producer of \<open>demo_plan_env\<close> returns for any goal but the two named.\<close>

definition same_id_step :: json where
  "same_id_step = JObj [(''id'', JInt 1), (''task'', JStr [])]"

section \<open>Facts about the executor\<close>

lemma full_script_inject [simp]: "full_script ex c = full_script ex c' \<longleftrightarrow> c = c'"
  by (simp add: full_script_def)

text \<open>What \<open>execute_code\<close> returns once the subordinate process has run.\<close>

lemma execute_code_ran:
  assumes "to_csv env (history w @ [ExecuteCode c d]) d = Inr csv"
    and "write_script env (history w @ [ExecuteCode c d]) (full_script ex c) = None"
    and "subprocess_run env (history w @ [ExecuteCode c d])
           ((files w)\<lparr>input_csv := Some csv, script := Some (full_script ex c)\<rparr>) = Inr (p, fs)"
  shows "execute_code env ex c d w =
           (let h3 = history w @ [ExecuteCode c d, SubprocessRun (full_script ex c)]
            in (if returncode p = 0
                then (case output_csv fs of
                        Some artifact \<Rightarrow>
                          (case read_csv env h3 artifact of
                             Inl e \<Rightarrow> Error (process_error env h3 e) None
                           | Inr output_df \<Rightarrow> Success output_df (stdout p))
                      | None \<Rightarrow> error_information p)
                else error_information p,
                w\<lparr>files := fs, history := h3\<rparr>))"
  using assms
  by (simp add: execute_code_def execute_try_def Let_def split: option.splits sum.splits)


lemma execute_code_output_kept:
  assumes "\<forall>h f p fs. subprocess_run env h f = Inr (p, fs) \<longrightarrow> output_csv fs = output_csv f"
  shows "output_csv (files (snd (execute_code env ex c d w))) = output_csv (files w)"
proof (cases "to_csv env (history w @ [ExecuteCode c d]) d")
  case (Inl e)
  then show ?thesis by (simp add: execute_code_def execute_try_def Let_def)
next
  case csv: (Inr csv)
  show ?thesis
  proof (cases "write_script env (history w @ [ExecuteCode c d]) (full_script ex c)")
    case (Some e)
    then show ?thesis using csv by (simp add: execute_code_def execute_try_def Let_def)
  next
    case None
    let ?f = "(files w)\<lparr>input_csv := Some csv, script := Some (full_script ex c)\<rparr>"
    show ?thesis
    proof (cases "subprocess_run env (history w @ [ExecuteCode c d]) ?f")
      case (Inl e)
      then show ?thesis using csv None by (simp add: execute_code_def execute_try_def Let_def)
    next
      case (Inr pfs)
      obtain p fs where pfs: "pfs = (p, fs)" by (cases pfs)
      have "output_csv fs = output_csv ?f" using assms Inr pfs by blast
      then show ?thesis
        using execute_code_ran [OF csv None Inr [unfolded pfs]] by (simp add: Let_def)
    qed
  qed
qed

lemma debug_code_history: "prefix (history w) (history (snd (debug_code env c tb w)))"
  by (simp add: debug_code_def Let_def)

lemma debug_code_files: "files (snd (debug_code env c tb w)) = files w"
  by (simp add: debug_code_def Let_def)

section \<open>Facts about the attempt loop\<close>



text \<open>After a failed execution the loop goes on from a state that differs in the world only.\<close>

lemma attempt_loop_after_error:
  assumes "get_dataframe s = Some d"
    and "execute_code env ex c d (outside s) = (Error tb rc, w)"
  obtains c' s' where "attempt_loop env ex t (a # as) c s = attempt_loop env ex t as c' s'"
    and "prefix (history w) (history (outside s'))"
    and "files (outside s') = files w"
    and "df s' = df s"
proof -
  define cw where "cw = (if a < 2 then debug_code env c tb w else (c, w))"
  define s' where "s' = (if a = 2 then append_log (exhausted_entry t (fst cw) tb) (s\<lparr>outside := snd cw\<rparr>)
                         else s\<lparr>outside := snd cw\<rparr>)"
  have "attempt_loop env ex t (a # as) c s = attempt_loop env ex t as (fst cw) s'"
    using assms by (simp add: cw_def s'_def Let_def split: prod.splits)
  moreover have "prefix (history w) (history (outside s'))"
    using debug_code_history [of w env c tb] by (simp add: cw_def s'_def append_log_def)
  moreover have "files (outside s') = files w"
    using debug_code_files [of env c tb w] by (simp add: cw_def s'_def append_log_def)
  moreover have "df s' = df s"
    by (simp add: s'_def append_log_def)
  ultimately show ?thesis using that by blast
qed



lemma attempt_loop_output_kept:
  assumes "\<forall>h f p fs. subprocess_run env h f = Inr (p, fs) \<longrightarrow> output_csv fs = output_csv f"
  shows "output_csv (files (outside (attempt_loop env ex t as c s))) = output_csv (files (outside s))"
proof (induction as arbitrary: c s)
  case Nil
  show ?case by simp
next
  case (Cons a as)
  show ?case
  proof (cases "get_dataframe s")
    case None
    then show ?thesis by (simp add: append_log_def)
  next
    case (Some d)
    obtain r w where ex: "execute_code env ex c d (outside s) = (r, w)"
      by (cases "execute_code env ex c d (outside s)")
    have fw: "output_csv (files w) = output_csv (files (outside s))"
      using execute_code_output_kept [OF assms, of ex c d "outside s"] ex by simp
    show ?thesis
    proof (cases r)
      case (Success nd out)
      then show ?thesis using Some ex fw by (simp add: append_log_def update_dataframe_def)
    next
      case (Error tb rc)
      obtain c' s' where step: "attempt_loop env ex t (a # as) c s = attempt_loop env ex t as c' s'"
        and f: "files (outside s') = files w"
        using attempt_loop_after_error [OF Some ex [unfolded Error]] by metis
      have "output_csv (files (outside (attempt_loop env ex t as c' s'))) = output_csv (files (outside s'))"
        by (rule Cons.IH)
      then show ?thesis using step f fw by simp
    qed
  qed
qed

lemma run_tasks_output_kept:
  assumes "\<forall>h f p fs. subprocess_run env h f = Inr (p, fs) \<longrightarrow> output_csv fs = output_csv f"
  shows "output_csv (files (outside (run_tasks env ex plan s))) = output_csv (files (outside s))"
proof (induction plan arbitrary: s)
  case Nil
  show ?case by simp
next
  case (Cons t plan)
  have "output_csv (files (outside (run_task env ex t s))) = output_csv (files (outside s))"
    using attempt_loop_output_kept [OF assms]
    by (simp add: run_task_def Let_def append_log_def split: sum.splits)
  then show ?case using Cons.IH by simp
qed

lemma cleanup_removes_output:
  assumes "unlink env (history w @ [Cleanup]) (input_csv_path ex) = None"
    and "unlink env (history w @ [Cleanup]) (output_csv_path ex) = None"
  shows "output_csv (files (cleanup env ex w)) = None"
  using assms by (simp add: cleanup_def Let_def split: option.splits)

section \<open>One task, one entry\<close>

lemma status_failed_simps [simp]:
  "status_failed (generation_failed_entry t x)" "status_failed (no_dataframe_entry t)"
  "\<not> status_failed (success_entry t c a)" "status_failed (exhausted_entry t c tb)"
  by (simp_all add: status_failed_def dict_get_def generation_failed_entry_def no_dataframe_entry_def
      success_entry_def exhausted_entry_def)

lemma task_entry_simps [simp]:
  "task_entry t (generation_failed_entry t x)" "task_entry t (no_dataframe_entry t)"
  "a < 3 \<Longrightarrow> task_entry t (success_entry t c a)" "task_entry t (exhausted_entry t c tb)"
  by (auto simp: task_entry_def)









section \<open>Facts about the plan producer\<close>

lemma validate_steps_None:
  "validate_steps penv steps = None \<longleftrightarrow>
     (\<forall>step \<in> set steps. py_contains ''id'' step = Inr True \<and> py_contains ''task'' step = Inr True)"
  by (induction steps) (auto split: sum.splits)

lemma py_contains_dict: "py_contains k (JObj kvs) = Inr (k \<in> fst ` set kvs)"
  by (simp add: py_contains_def)

section \<open>Runs in the small world\<close>

lemmas model_defs = run_task_def range3_def Let_def execute_code_def execute_try_def debug_code_def
  get_dataframe_def update_dataframe_def append_log_def error_information_def py_or_def
  process_error_def

lemmas demo_defs = demo_env_def fresh_def no_files_def task1_def df_ab_def df_a_def
  code_drop_b_def code_drop_zip_def code_empty_frame_def code_exit0_def
  ran_failed_def ran_ok_def ran_exit0_def empty_data_error_def






section \<open>The claims about the execution loop\<close>

















section \<open>The claims about the executor\<close>

text \<open>
  Claim C5, as amended. Once the subordinate process has run (serialising the input,
  writing the script and starting the process did not raise), the result is a success
  exactly when the exit code is 0, the output file exists and \<open>read_csv\<close> reads it, and
  then the new DataFrame is what \<open>read_csv\<close> returned; when the exit code is not 0 or the
  output file is missing, the result is an error whose text is the captured stderr, or the
  captured stdout when stderr is empty; and when the exit code is 0 and the output file
  exists but \<open>read_csv\<close> raises, the result is the error built by the exception handler.
\<close>

theorem execute_code_classification:
  assumes "to_csv env (history w @ [ExecuteCode c d]) d = Inr csv"
    and "write_script env (history w @ [ExecuteCode c d]) (full_script ex c) = None"
    and "subprocess_run env (history w @ [ExecuteCode c d])
           ((files w)\<lparr>input_csv := Some csv, script := Some (full_script ex c)\<rparr>) = Inr (p, fs)"
    and "h3 = history w @ [ExecuteCode c d, SubprocessRun (full_script ex c)]"
    and "r = fst (execute_code env ex c d w)"
  shows "((\<exists>new_df out. r = Success new_df out) \<longleftrightarrow>
            returncode p = 0 \<and>
            (\<exists>artifact new_df. output_csv fs = Some artifact \<and> read_csv env h3 artifact = Inr new_df))
       \<and> (\<forall>artifact new_df.
             returncode p = 0 \<and> output_csv fs = Some artifact \<and> read_csv env h3 artifact = Inr new_df
             \<longrightarrow> r = Success new_df (stdout p))
       \<and> (returncode p \<noteq> 0 \<or> output_csv fs = None
             \<longrightarrow> r = Error (if stderr p \<noteq> [] then stderr p else stdout p) (Some (returncode p)))
       \<and> (\<forall>artifact e.
             returncode p = 0 \<and> output_csv fs = Some artifact \<and> read_csv env h3 artifact = Inl e
             \<longrightarrow> r = Error (process_error env h3 e) None)"
  unfolding assms(4,5) execute_code_ran [OF assms(1-3)]
  by (auto simp: Let_def error_information_def py_or_def split: option.splits sum.splits)

theorem execute_code_classification_witness:
  "to_csv demo_env [ExecuteCode code_drop_b df_ab] df_ab = Inr ''a,b\<newline>1,2\<newline>''
   \<and> write_script demo_env [ExecuteCode code_drop_b df_ab] (full_script ex0 code_drop_b) = None
   \<and> subprocess_run demo_env [ExecuteCode code_drop_b df_ab]
        (no_files\<lparr>input_csv := Some ''a,b\<newline>1,2\<newline>'', script := Some (full_script ex0 code_drop_b)\<rparr>)
       = Inr (ran_ok, no_files\<lparr>input_csv := Some ''a,b\<newline>1,2\<newline>'',
                               script := Some (full_script ex0 code_drop_b),
                               output_csv := Some ''a\<newline>1\<newline>''\<rparr>)
   \<and> returncode ran_ok = 0
   \<and> fst (execute_code demo_env ex0 code_drop_b df_ab (outside fresh))
       = Success df_a ''Transformation completed successfully\<newline>''"
proof -
  let ?h = "history (outside fresh) @ [ExecuteCode code_drop_b df_ab]"
  let ?f = "(files (outside fresh))\<lparr>input_csv := Some ''a,b\<newline>1,2\<newline>'',
              script := Some (full_script ex0 code_drop_b)\<rparr>"
  let ?h3 = "history (outside fresh) @ [ExecuteCode code_drop_b df_ab, SubprocessRun (full_script ex0 code_drop_b)]"
  have a1: "to_csv demo_env ?h df_ab = Inr ''a,b\<newline>1,2\<newline>''"
    by (simp add: demo_env_def)
  have a2: "write_script demo_env ?h (full_script ex0 code_drop_b) = None"
    by (simp add: demo_env_def)
  have a3: "subprocess_run demo_env ?h ?f = Inr (ran_ok, ?f\<lparr>output_csv := Some ''a\<newline>1\<newline>''\<rparr>)"
    by (simp add: demo_env_def)
  have rd: "read_csv demo_env ?h3 ''a\<newline>1\<newline>'' = Inr df_a"
    by (simp add: demo_env_def)
  have "fst (execute_code demo_env ex0 code_drop_b df_ab (outside fresh)) = Success df_a (stdout ran_ok)"
    using execute_code_classification [OF a1 a2 a3 refl refl] rd
    by (simp add: ran_ok_def)
  then show ?thesis
    using a1 a2 a3 by (simp add: fresh_def ran_ok_def)
qed

text \<open>
  The claim C5 as the specification states it makes the result depend on the exit code
  and the existence of the output file alone. Here the process exits with 0 and leaves an
  output file, which has no columns; \<open>read_csv\<close> raises, and the result is an error
  whose text is neither the captured stderr nor the captured stdout.
\<close>

theorem unreadable_output_is_an_error:
  "subprocess_run demo_env [ExecuteCode code_empty_frame df_ab]
        (no_files\<lparr>input_csv := Some ''a,b\<newline>1,2\<newline>'', script := Some (full_script ex0 code_empty_frame)\<rparr>)
       = Inr (ran_ok, no_files\<lparr>input_csv := Some ''a,b\<newline>1,2\<newline>'',
                               script := Some (full_script ex0 code_empty_frame),
                               output_csv := Some ''\<newline>''\<rparr>)
   \<and> returncode ran_ok = 0
   \<and> stderr ran_ok = []
   \<and> stdout ran_ok = ''Transformation completed successfully\<newline>''
   \<and> fst (execute_code demo_env ex0 code_empty_frame df_ab (outside fresh))
       = Error ''Error in code execution process: No columns to parse from file\<newline>Traceback (most recent call last):\<newline>EmptyDataError: No columns to parse from file\<newline>'' None"
  by (simp add: model_defs demo_defs)

text \<open>
  Claim C9, as amended. The orchestrating process removes the output file in \<open>cleanup\<close>
  only: when no subordinate process touches the file, it is after all the tasks of a plan
  what it was before them, and \<open>cleanup\<close> removes it. Hence, when an earlier invocation
  has left an output file and the subordinate process exits with 0 without writing a new
  one, \<open>execute_code\<close> reads the old file: it returns a success with the DataFrame read
  from it, provided \<open>read_csv\<close> can read it, and the file is still there afterwards.
\<close>

theorem stale_output_is_read_again:
  "((\<forall>h f p fs. subprocess_run env h f = Inr (p, fs) \<longrightarrow> output_csv fs = output_csv f)
      \<longrightarrow> output_csv (files (outside (run_tasks env ex plan s))) = output_csv (files (outside s)))
   \<and> (unlink env (history w @ [Cleanup]) (input_csv_path ex) = None \<and>
      unlink env (history w @ [Cleanup]) (output_csv_path ex) = None
      \<longrightarrow> output_csv (files (cleanup env ex w)) = None)
   \<and> (output_csv (files w) = Some artifact \<and>
      to_csv env (history w @ [ExecuteCode c d]) d = Inr csv \<and>
      write_script env (history w @ [ExecuteCode c d]) (full_script ex c) = None \<and>
      subprocess_run env (history w @ [ExecuteCode c d])
        ((files w)\<lparr>input_csv := Some csv, script := Some (full_script ex c)\<rparr>) = Inr (p, fs) \<and>
      returncode p = 0 \<and> output_csv fs = Some artifact \<and>
      read_csv env (history w @ [ExecuteCode c d, SubprocessRun (full_script ex c)]) artifact = Inr stale_df
      \<longrightarrow> fst (execute_code env ex c d w) = Success stale_df (stdout p) \<and>
          output_csv (files (snd (execute_code env ex c d w))) = Some artifact)"
proof (intro conjI impI)
  assume "\<forall>h f p fs. subprocess_run env h f = Inr (p, fs) \<longrightarrow> output_csv fs = output_csv f"
  then show "output_csv (files (outside (run_tasks env ex plan s))) = output_csv (files (outside s))"
    by (rule run_tasks_output_kept)
next
  assume "unlink env (history w @ [Cleanup]) (input_csv_path ex) = None \<and>
      unlink env (history w @ [Cleanup]) (output_csv_path ex) = None"
  then show "output_csv (files (cleanup env ex w)) = None"
    by (simp add: cleanup_removes_output)
next
  assume a: "output_csv (files w) = Some artifact \<and>
      to_csv env (history w @ [ExecuteCode c d]) d = Inr csv \<and>
      write_script env (history w @ [ExecuteCode c d]) (full_script ex c) = None \<and>
      subprocess_run env (history w @ [ExecuteCode c d])
        ((files w)\<lparr>input_csv := Some csv, script := Some (full_script ex c)\<rparr>) = Inr (p, fs) \<and>
      returncode p = 0 \<and> output_csv fs = Some artifact \<and>
      read_csv env (history w @ [ExecuteCode c d, SubprocessRun (full_script ex c)]) artifact = Inr stale_df"
  then have run: "to_csv env (history w @ [ExecuteCode c d]) d = Inr csv"
      "write_script env (history w @ [ExecuteCode c d]) (full_script ex c) = None"
      "subprocess_run env (history w @ [ExecuteCode c d])
        ((files w)\<lparr>input_csv := Some csv, script := Some (full_script ex c)\<rparr>) = Inr (p, fs)"
    by simp_all
  show "fst (execute_code env ex c d w) = Success stale_df (stdout p)"
    using a by (simp add: execute_code_ran [OF run] Let_def)
  show "output_csv (files (snd (execute_code env ex c d w))) = Some artifact"
    using a by (simp add: execute_code_ran [OF run] Let_def)
qed

theorem stale_output_is_read_again_witness:
  "output_csv (files (outside (run_tasks quiet_env ex0 [task1 ''exit'', task1 ''boom''] stale_state)))
     = Some ''a\<newline>1\<newline>''
   \<and> output_csv (files (cleanup demo_env ex0 stale_world)) = None
   \<and> output_csv (files stale_world) = Some ''a\<newline>1\<newline>''
   \<and> subprocess_run demo_env [ExecuteCode code_exit0 df_ab]
        ((files stale_world)\<lparr>input_csv := Some ''a,b\<newline>1,2\<newline>'', script := Some (full_script ex0 code_exit0)\<rparr>)
       = Inr (ran_exit0,
              (files stale_world)\<lparr>input_csv := Some ''a,b\<newline>1,2\<newline>'', script := Some (full_script ex0 code_exit0)\<rparr>)
   \<and> returncode ran_exit0 = 0
   \<and> fst (execute_code demo_env ex0 code_exit0 df_ab stale_world) = Success df_a []
   \<and> output_csv (files (snd (execute_code demo_env ex0 code_exit0 df_ab stale_world))) = Some ''a\<newline>1\<newline>''"
proof -
  let ?f = "(files stale_world)\<lparr>input_csv := Some ''a,b\<newline>1,2\<newline>'', script := Some (full_script ex0 code_exit0)\<rparr>"
  have quiet: "\<forall>h f p fs. subprocess_run quiet_env h f = Inr (p, fs) \<longrightarrow> output_csv fs = output_csv f"
    by (simp add: quiet_env_def)
  have un: "unlink demo_env (history stale_world @ [Cleanup]) (input_csv_path ex0) = None \<and>
      unlink demo_env (history stale_world @ [Cleanup]) (output_csv_path ex0) = None"
    by (simp add: demo_env_def)
  have sp: "subprocess_run demo_env (history stale_world @ [ExecuteCode code_exit0 df_ab]) ?f = Inr (ran_exit0, ?f)"
    by (simp add: demo_env_def code_drop_b_def code_empty_frame_def code_exit0_def)
  have st: "output_csv (files stale_world) = Some ''a\<newline>1\<newline>'' \<and>
      to_csv demo_env (history stale_world @ [ExecuteCode code_exit0 df_ab]) df_ab = Inr ''a,b\<newline>1,2\<newline>'' \<and>
      write_script demo_env (history stale_world @ [ExecuteCode code_exit0 df_ab]) (full_script ex0 code_exit0) = None \<and>
      subprocess_run demo_env (history stale_world @ [ExecuteCode code_exit0 df_ab]) ?f = Inr (ran_exit0, ?f) \<and>
      returncode ran_exit0 = 0 \<and> output_csv ?f = Some ''a\<newline>1\<newline>'' \<and>
      read_csv demo_env (history stale_world @ [ExecuteCode code_exit0 df_ab, SubprocessRun (full_script ex0 code_exit0)])
        ''a\<newline>1\<newline>'' = Inr df_a"
    using sp by (simp add: demo_env_def stale_world_def no_files_def ran_exit0_def)
  note tasks = stale_output_is_read_again [where env = quiet_env and ex = ex0
      and plan = "[task1 ''exit'', task1 ''boom'']" and s = stale_state]
  note once = stale_output_is_read_again [where env = demo_env and ex = ex0 and w = stale_world
      and artifact = "''a\<newline>1\<newline>''" and c = code_exit0 and d = df_ab
      and csv = "''a,b\<newline>1,2\<newline>''" and p = ran_exit0 and fs = ?f and stale_df = df_a]
  have "output_csv (files (outside (run_tasks quiet_env ex0 [task1 ''exit'', task1 ''boom''] stale_state)))
      = output_csv (files (outside stale_state))"
    using tasks quiet by blast
  moreover have "output_csv (files (cleanup demo_env ex0 stale_world)) = None"
    using once un by blast
  moreover have "fst (execute_code demo_env ex0 code_exit0 df_ab stale_world) = Success df_a (stdout ran_exit0) \<and>
      output_csv (files (snd (execute_code demo_env ex0 code_exit0 df_ab stale_world))) = Some ''a\<newline>1\<newline>''"
    using once st by blast
  ultimately show ?thesis
    using sp by (simp add: stale_state_def stale_world_def no_files_def ran_exit0_def)
qed

text \<open>
  The claim C9 as it is stated promises a success whenever the process exits with 0 and an
  earlier output file is there. Here the earlier file is one \<open>read_csv\<close> cannot read (it
  has no columns): the process exits with 0 and writes nothing, and the result is an error.
\<close>

theorem unreadable_stale_output_is_an_error:
  "output_csv (files stale_empty_world) = Some ''\<newline>''
   \<and> subprocess_run demo_env [ExecuteCode code_exit0 df_ab]
        ((files stale_empty_world)\<lparr>input_csv := Some ''a,b\<newline>1,2\<newline>'', script := Some (full_script ex0 code_exit0)\<rparr>)
       = Inr (ran_exit0,
              (files stale_empty_world)\<lparr>input_csv := Some ''a,b\<newline>1,2\<newline>'', script := Some (full_script ex0 code_exit0)\<rparr>)
   \<and> returncode ran_exit0 = 0
   \<and> fst (execute_code demo_env ex0 code_exit0 df_ab stale_empty_world)
       = Error ''Error in code execution process: No columns to parse from file\<newline>Traceback (most recent call last):\<newline>EmptyDataError: No columns to parse from file\<newline>'' None"
  by (simp add: model_defs demo_defs stale_empty_world_def)

text \<open>
  Claim C10. \<open>execute_code\<close> always returns a result. Whichever step of the orchestrating
  process raises (serialising the input, writing the script, starting the process, reading
  the output file), the result is an error without a return code whose text is built by
  the handler and contains \<open>str(e)\<close> and the formatted traceback.
\<close>

theorem execute_code_returns_faults:
  assumes "h = history w @ [ExecuteCode c d]"
    and "h3 = h @ [SubprocessRun (full_script ex c)]"
  shows "(\<exists>r w'. execute_code env ex c d w = (r, w'))
       \<and> (to_csv env h d = Inl e \<longrightarrow> fst (execute_code env ex c d w) = Error (process_error env h e) None)
       \<and> (to_csv env h d = Inr csv \<and> write_script env h (full_script ex c) = Some e
            \<longrightarrow> fst (execute_code env ex c d w) = Error (process_error env h e) None)
       \<and> (to_csv env h d = Inr csv \<and> write_script env h (full_script ex c) = None \<and>
          subprocess_run env h ((files w)\<lparr>input_csv := Some csv, script := Some (full_script ex c)\<rparr>) = Inl e
            \<longrightarrow> fst (execute_code env ex c d w) = Error (process_error env h e) None)
       \<and> (to_csv env h d = Inr csv \<and> write_script env h (full_script ex c) = None \<and>
          subprocess_run env h ((files w)\<lparr>input_csv := Some csv, script := Some (full_script ex c)\<rparr>) = Inr (p, fs) \<and>
          returncode p = 0 \<and> output_csv fs = Some artifact \<and> read_csv env h3 artifact = Inl e
            \<longrightarrow> fst (execute_code env ex c d w) = Error (process_error env h3 e) None)
       \<and> sublist (exc_str e) (process_error env h' e)
       \<and> sublist (format_exc env h' e) (process_error env h' e)"
proof -
  have "sublist (exc_str e) (process_error env h' e)"
    unfolding sublist_def process_error_def by blast
  moreover have "sublist (format_exc env h' e) (process_error env h' e)"
    unfolding sublist_def process_error_def
    by (rule exI [of _ "''Error in code execution process: '' @ exc_str e @ ''\<newline>''"], rule exI [of _ "[]"]) simp
  moreover have "\<exists>r w'. execute_code env ex c d w = (r, w')"
    by (cases "execute_code env ex c d w") blast
  ultimately show ?thesis
    unfolding assms
    by (auto simp: execute_code_def execute_try_def Let_def)
qed

theorem execute_code_returns_faults_witness:
  "fst (execute_code env_to_csv_fails ex0 code_drop_b df_ab (outside fresh))
     = Error ''Error in code execution process: [Errno 28] No space left on device\<newline>Traceback (most recent call last):\<newline>OSError: [Errno 28] No space left on device\<newline>'' None
   \<and> fst (execute_code env_write_fails ex0 code_drop_b df_ab (outside fresh))
     = Error ''Error in code execution process: [Errno 28] No space left on device\<newline>Traceback (most recent call last):\<newline>OSError: [Errno 28] No space left on device\<newline>'' None
   \<and> fst (execute_code env_spawn_fails ex0 code_drop_b df_ab (outside fresh))
     = Error (process_error env_spawn_fails [ExecuteCode code_drop_b df_ab] no_python) None
   \<and> fst (execute_code demo_env ex0 code_empty_frame df_ab (outside fresh))
     = Error ''Error in code execution process: No columns to parse from file\<newline>Traceback (most recent call last):\<newline>EmptyDataError: No columns to parse from file\<newline>'' None
   \<and> sublist ''No columns to parse from file''
       (process_error demo_env [] empty_data_error)"
proof -
  let ?h = "history (outside fresh) @ [ExecuteCode code_drop_b df_ab]"
  let ?he = "history (outside fresh) @ [ExecuteCode code_empty_frame df_ab]"
  let ?csv = "''a,b\<newline>1,2\<newline>''"
  let ?fe = "(files (outside fresh))\<lparr>input_csv := Some ?csv, script := Some (full_script ex0 code_empty_frame)\<rparr>"
  have 1: "fst (execute_code env_to_csv_fails ex0 code_drop_b df_ab (outside fresh))
      = Error (process_error env_to_csv_fails ?h disk_full) None"
    using execute_code_returns_faults [where env = env_to_csv_fails and w = "outside fresh" and c = code_drop_b
        and d = df_ab and ex = ex0 and e = disk_full, OF refl refl]
    by (simp add: env_to_csv_fails_def)
  have 2: "fst (execute_code env_write_fails ex0 code_drop_b df_ab (outside fresh))
      = Error (process_error env_write_fails ?h disk_full) None"
    using execute_code_returns_faults [where env = env_write_fails and w = "outside fresh" and c = code_drop_b
        and d = df_ab and ex = ex0 and e = disk_full and csv = ?csv, OF refl refl]
    by (simp add: env_write_fails_def demo_env_def df_ab_def)
  have 3: "fst (execute_code env_spawn_fails ex0 code_drop_b df_ab (outside fresh))
      = Error (process_error env_spawn_fails ?h no_python) None"
    using execute_code_returns_faults [where env = env_spawn_fails and w = "outside fresh" and c = code_drop_b
        and d = df_ab and ex = ex0 and e = no_python and csv = ?csv, OF refl refl]
    by (simp add: env_spawn_fails_def demo_env_def df_ab_def)
  have 4: "fst (execute_code demo_env ex0 code_empty_frame df_ab (outside fresh))
      = Error (process_error demo_env (?he @ [SubprocessRun (full_script ex0 code_empty_frame)]) empty_data_error) None"
    using execute_code_returns_faults [where env = demo_env and w = "outside fresh" and c = code_empty_frame
        and d = df_ab and ex = ex0 and e = empty_data_error and csv = ?csv and p = ran_ok
        and fs = "?fe\<lparr>output_csv := Some ''\<newline>''\<rparr>" and artifact = "''\<newline>''", OF refl refl]
    by (simp add: demo_defs)
  have 5: "sublist ''No columns to parse from file'' (process_error demo_env [] empty_data_error)"
    using execute_code_returns_faults [where env = demo_env and w = "outside fresh" and c = code_empty_frame
        and d = df_ab and ex = ex0 and e = empty_data_error and h' = "[]", OF refl refl]
    by (simp add: empty_data_error_def)
  show ?thesis
    using 1 2 3 4 5
    by (simp add: process_error_def env_to_csv_fails_def env_write_fails_def env_spawn_fails_def
        demo_env_def disk_full_def empty_data_error_def fresh_def)
qed

section \<open>The claim about the plan producer\<close>

lemma handler_plan_fallback:
  "\<exists>msg. handler_plan e = fallback_plan msg \<and> prefix ''Error generating plan'' msg"
proof (cases "exc_class e = ''JSONDecodeError''")
  case True
  have "prefix ''Error generating plan'' ''Error generating plan. Please check the data profile and try again.''"
    by simp
  then show ?thesis using True unfolding handler_plan_def by auto
next
  case False
  have "prefix ''Error generating plan'' (''Error generating plan: '' @ exc_str e)"
    by simp
  then show ?thesis using False unfolding handler_plan_def by auto
qed

lemma generate_plan_answered:
  assumes "api_key penv = Some key" and "key \<noteq> []" and "json_dumps penv = Inr profile"
    and "chat_completion penv (''Data Profile:\<newline>'' @ profile @ ''\<newline>\<newline>User Context:\<newline>'' @ ctx) = Inr txt"
  shows "generate_plan penv ctx =
           (case json_loads penv txt of
              Inl e \<Rightarrow> Inr (handler_plan e)
            | Inr plan \<Rightarrow>
                (case py_iter plan of
                   Inl e \<Rightarrow> Inr (handler_plan e)
                 | Inr steps \<Rightarrow>
                     (case validate_steps penv steps of
                        Some e \<Rightarrow> Inr (handler_plan e)
                      | None \<Rightarrow> Inr plan)))"
  using assms
  by (simp add: generate_plan_def generate_plan_try_def split: sum.splits option.splits)

text \<open>
  Claim C6, as amended. For a response of the model that the producer received: a plan
  that is returned is a single-task fallback plan or the parsed response itself, and in
  the latter case every task of it that is a JSON object has the keys \<open>"id"\<close> and
  \<open>"task"\<close> (the values are not looked at: ids need not be numbers or distinct,
  descriptions may be empty). A response that \<open>json.loads\<close> refuses, and a list with an
  object that lacks one of the two keys, are replaced by a single-task plan with id 1
  whose description starts with the words \<open>Error generating plan\<close>; a list of objects
  that all have both keys is returned as it is.
\<close>

theorem generate_plan_checks_key_presence:
  assumes "api_key penv = Some key" and "key \<noteq> []" and "json_dumps penv = Inr profile"
    and "chat_completion penv (''Data Profile:\<newline>'' @ profile @ ''\<newline>\<newline>User Context:\<newline>'' @ ctx) = Inr txt"
  shows "(\<forall>e. json_loads penv txt = Inl e \<longrightarrow>
            (\<exists>msg. generate_plan penv ctx = Inr (fallback_plan msg) \<and> prefix ''Error generating plan'' msg))
       \<and> (\<forall>steps kvs. json_loads penv txt = Inr (JArr steps) \<and> JObj kvs \<in> set steps \<and>
            (''id'' \<notin> fst ` set kvs \<or> ''task'' \<notin> fst ` set kvs) \<longrightarrow>
            (\<exists>msg. generate_plan penv ctx = Inr (fallback_plan msg) \<and> prefix ''Error generating plan'' msg))
       \<and> (\<forall>steps. json_loads penv txt = Inr (JArr steps) \<and>
            (\<forall>step \<in> set steps. \<exists>kvs. step = JObj kvs \<and> ''id'' \<in> fst ` set kvs \<and> ''task'' \<in> fst ` set kvs) \<longrightarrow>
            generate_plan penv ctx = Inr (JArr steps))
       \<and> (\<forall>plan. generate_plan penv ctx = Inr plan \<longrightarrow>
            (\<exists>msg. plan = fallback_plan msg \<and> prefix ''Error generating plan'' msg) \<or>
            (json_loads penv txt = Inr plan \<and>
             (\<forall>steps kvs. plan = JArr steps \<and> JObj kvs \<in> set steps \<longrightarrow>
                ''id'' \<in> fst ` set kvs \<and> ''task'' \<in> fst ` set kvs)))"
proof (intro conjI allI impI)
  fix e
  assume "json_loads penv txt = Inl e"
  then show "\<exists>msg. generate_plan penv ctx = Inr (fallback_plan msg) \<and> prefix ''Error generating plan'' msg"
    using handler_plan_fallback [of e] by (simp add: generate_plan_answered [OF assms])
next
  fix steps kvs
  assume a: "json_loads penv txt = Inr (JArr steps) \<and> JObj kvs \<in> set steps \<and>
      (''id'' \<notin> fst ` set kvs \<or> ''task'' \<notin> fst ` set kvs)"
  then have "\<not> (py_contains ''id'' (JObj kvs) = Inr True \<and> py_contains ''task'' (JObj kvs) = Inr True)"
    by (auto simp: py_contains_dict)
  then have "validate_steps penv steps \<noteq> None"
    using a unfolding validate_steps_None by blast
  then obtain e where "validate_steps penv steps = Some e" by blast
  then show "\<exists>msg. generate_plan penv ctx = Inr (fallback_plan msg) \<and> prefix ''Error generating plan'' msg"
    using a handler_plan_fallback [of e]
    by (simp add: generate_plan_answered [OF assms] py_iter_def)
next
  fix steps
  assume a: "json_loads penv txt = Inr (JArr steps) \<and>
      (\<forall>step \<in> set steps. \<exists>kvs. step = JObj kvs \<and> ''id'' \<in> fst ` set kvs \<and> ''task'' \<in> fst ` set kvs)"
  have "py_contains ''id'' step = Inr True \<and> py_contains ''task'' step = Inr True"
    if mem: "step \<in> set steps" for step
  proof -
    obtain kvs where "step = JObj kvs" and "''id'' \<in> fst ` set kvs" and "''task'' \<in> fst ` set kvs"
      using a mem by blast
    then show ?thesis by (simp add: py_contains_dict)
  qed
  then have "validate_steps penv steps = None"
    unfolding validate_steps_None by blast
  then show "generate_plan penv ctx = Inr (JArr steps)"
    using a by (simp add: generate_plan_answered [OF assms] py_iter_def)
next
  fix plan
  assume r: "generate_plan penv ctx = Inr plan"
  show "(\<exists>msg. plan = fallback_plan msg \<and> prefix ''Error generating plan'' msg) \<or>
      (json_loads penv txt = Inr plan \<and>
       (\<forall>steps kvs. plan = JArr steps \<and> JObj kvs \<in> set steps \<longrightarrow>
          ''id'' \<in> fst ` set kvs \<and> ''task'' \<in> fst ` set kvs))"
  proof (cases "\<exists>e. plan = handler_plan e")
    case True
    then show ?thesis using handler_plan_fallback by metis
  next
    case False
    then have l: "json_loads penv txt = Inr plan"
      and v: "\<exists>steps. py_iter plan = Inr steps \<and> validate_steps penv steps = None"
      using r by (auto simp: generate_plan_answered [OF assms] split: sum.splits option.splits)
    have "''id'' \<in> fst ` set kvs \<and> ''task'' \<in> fst ` set kvs"
      if "plan = JArr steps \<and> JObj kvs \<in> set steps" for steps kvs
    proof -
      have "validate_steps penv steps = None"
        using v that by (simp add: py_iter_def)
      then have "py_contains ''id'' (JObj kvs) = Inr True \<and> py_contains ''task'' (JObj kvs) = Inr True"
        using that by (auto simp: validate_steps_None)
      then show ?thesis by (simp add: py_contains_dict)
    qed
    then show ?thesis using l by blast
  qed
qed

theorem generate_plan_checks_key_presence_witness:
  "generate_plan demo_plan_env ''worse''
     = Inr (fallback_plan ''Error generating plan. Please check the data profile and try again.'')
   \<and> generate_plan demo_plan_env ''bad''
     = Inr (fallback_plan ''Error generating plan: Invalid step format in plan: {}'')
   \<and> generate_plan demo_plan_env ''goal'' = Inr (JArr [same_id_step, same_id_step])"
proof -
  have k: "api_key demo_plan_env = Some ''sk-demo''" "''sk-demo'' \<noteq> []" "json_dumps demo_plan_env = Inr ''{}''"
    by (simp_all add: demo_plan_env_def)
  have c: "chat_completion demo_plan_env (''Data Profile:\<newline>'' @ ''{}'' @ ''\<newline>\<newline>User Context:\<newline>'' @ ''goal'') = Inr plan_text"
    by (simp add: demo_plan_env_def)
  have l: "json_loads demo_plan_env plan_text = Inr (JArr [same_id_step, same_id_step])"
    by (simp add: demo_plan_env_def same_id_step_def)
  have "generate_plan demo_plan_env ''goal'' = Inr (JArr [same_id_step, same_id_step])"
    using generate_plan_checks_key_presence [OF k c] l
    by (simp add: same_id_step_def)
  moreover have "generate_plan demo_plan_env ''worse''
      = Inr (fallback_plan ''Error generating plan. Please check the data profile and try again.'')"
    by (simp add: generate_plan_def generate_plan_try_def handler_plan_def demo_plan_env_def plan_text_def)
  moreover have "generate_plan demo_plan_env ''bad''
      = Inr (fallback_plan ''Error generating plan: Invalid step format in plan: {}'')"
    by (simp add: generate_plan_def generate_plan_try_def handler_plan_def demo_plan_env_def plan_text_def
        py_iter_def py_contains_def invalid_step_def)
  ultimately show ?thesis by simp
qed

text \<open>
  The claim C6 as the specification states it has the producer check that ids are numbers
  and distinct and that descriptions are not empty. A response with two tasks of the same
  id and empty descriptions has both keys in every task, and is returned as the plan.
\<close>

theorem same_ids_pass_validation:
  "generate_plan demo_plan_env ''goal'' = Inr (JArr [same_id_step, same_id_step])
   \<and> map (step_field ''id'') [same_id_step, same_id_step] = [Some (JInt 1), Some (JInt 1)]
   \<and> map (step_field ''task'') [same_id_step, same_id_step] = [Some (JStr []), Some (JStr [])]"
  by (simp add: generate_plan_def generate_plan_try_def demo_plan_env_def same_id_step_def
      py_iter_def py_contains_def step_field_def)

end
